theory Spec2Isabelle
  imports Complex_Main
begin

section \<open>Python values, exceptions and collaborators\<close>

text \<open>
  The handler of \<^verbatim>\<open>Tribler/Overlay/MetadataHandler.py\<close> works on Python 2 byte strings
  and on the values the bencoding library produces: byte strings, integers, lists and
  dictionaries with byte-string keys. A byte string is a \<open>string\<close> (a list of 8-bit
  characters); a dictionary is an association list read with \<open>map_of\<close>.
\<close>

datatype pyval =
    PStr string
  | PInt int
  | PList "pyval list"
  | PDict "(string \<times> pyval) list"

datatype error = ValueError | KeyError | TypeError | AttributeError | IndexError | IOError | OSError

text \<open>
  The per-torrent dictionary of the torrent database. Keys that the code reads with
  \<^verbatim>\<open>.get(key, default)\<close> or that only some producers set are optional fields; the
  fields copied from a remote peer's metainfo keep the value the decoder returned.
\<close>

record torrent_info =
  ti_name :: pyval
  ti_length :: pyval
  ti_num_files :: int
  ti_announce :: pyval
  ti_announce_list :: pyval
  ti_creation_date :: "pyval option"

record torrent =
  infohash :: "string option"
  torrent_dir :: string
  torrent_name :: string
  info :: "torrent_info option"
  category :: pyval
  ignore_number :: int
  last_check_time :: int
  retry_number :: "int option"
  seeder :: int
  leecher :: int
  status :: "string option"
  relevance :: "int option"
  weight :: "int option"

text \<open>
  The collaborators the module imports and the values it reads from its environment:
  the message tags of \<^verbatim>\<open>BitTornado.BT1.MessageID\<close>, the bencoding functions, SHA-1,
  \<^verbatim>\<open>name2unicode\<close>, the category classifier, \<^verbatim>\<open>GLOBAL.max_num_torrents\<close>, the clock
  reading \<^verbatim>\<open>time()\<close> (a float, taken as a real number: no rounding and no overflow)
  with its \<^verbatim>\<open>str\<close>, and the
  download helper given to \<^verbatim>\<open>register\<close> (absent when \<^verbatim>\<open>None\<close>). None of them is
  defined in the module, so every function of the handler takes them as a parameter.
\<close>

record env =
  GET_METADATA :: char
  METADATA :: char
  bdecode :: "pyval \<Rightarrow> error + pyval"
  bencode :: "pyval \<Rightarrow> string"
  sha_digest :: "string \<Rightarrow> string"
  sha_hexdigest :: "string \<Rightarrow> string"
  name2unicode :: "pyval \<Rightarrow> error + string \<times> pyval"
  calculateCategory :: "pyval \<Rightarrow> pyval \<Rightarrow> error + pyval"
  max_num_torrents :: int
  now :: real
  str_now :: string
  dlhelper :: "(pyval \<Rightarrow> pyval \<Rightarrow> error option) option"

text \<open>
  The handler object together with the world it acts on: its attributes
  (\<^verbatim>\<open>config_dir\<close>, \<^verbatim>\<open>num_torrents\<close>, \<^verbatim>\<open>torrent_list\<close>), the torrent database, the file
  system (regular files, directories, and the paths on which opening or creating
  fails), and the tasks handed to the secure overlay.
\<close>

record handler =
  config_dir :: string
  num_torrents :: int
  torrent_list :: "torrent list"
  torrent_db :: "(string \<times> torrent) list"
  files :: "string \<rightharpoonup> string"
  dirs :: "string set"
  denied :: "string set"
  overlay_tasks :: "(string \<times> string) list"

definition Max_Torrent_Size :: nat where
  "Max_Torrent_Size = 8 * 1024 * 1024"

subsection \<open>Library functions\<close>

text \<open>\<^verbatim>\<open>int(x)\<close> and \<^verbatim>\<open>long(x)\<close> of a float truncate towards zero.\<close>

definition py_int :: "real \<Rightarrow> int" where
  "py_int x = (if 0 \<le> x then \<lfloor>x\<rfloor> else \<lceil>x\<rceil>)"

text \<open>\<^verbatim>\<open>os.path.join\<close> of two components and \<^verbatim>\<open>os.path.split\<close>, as \<^verbatim>\<open>posixpath\<close> has them.\<close>

definition os_path_join :: "string \<Rightarrow> string \<Rightarrow> string" where
  "os_path_join a b =
     (if b \<noteq> [] \<and> hd b = CHR ''/'' then b
      else if a = [] \<or> last a = CHR ''/'' then a @ b
      else a @ ''/'' @ b)"

definition os_path_split :: "string \<Rightarrow> string \<times> string" where
  "os_path_split p =
     (let tail = rev (takeWhile (\<lambda>c. c \<noteq> CHR ''/'') (rev p));
          hd0 = take (length p - length tail) p;
          stripped = rev (dropWhile (\<lambda>c. c = CHR ''/'') (rev hd0))
      in (if stripped = [] then hd0 else stripped, tail))"

definition os_path_isfile :: "handler \<Rightarrow> string \<Rightarrow> bool" where
  "os_path_isfile s p = (files s p \<noteq> None)"

definition os_path_exists :: "handler \<Rightarrow> string \<Rightarrow> bool" where
  "os_path_exists s p = (files s p \<noteq> None \<or> p \<in> dirs s)"

text \<open>\<^verbatim>\<open>open(path, "rb").read()\<close>: the content, or \<^verbatim>\<open>IOError\<close>.\<close>

definition open_read :: "handler \<Rightarrow> string \<Rightarrow> error + string" where
  "open_read s p =
     (case files s p of
        None \<Rightarrow> Inl IOError
      | Some d \<Rightarrow> if p \<in> denied s then Inl IOError else Inr d)"

text \<open>
  Modelled from the spec: \<^verbatim>\<open>isValidInfohash\<close> of \<^verbatim>\<open>Tribler.utilities\<close> is not in the
  source at hand; the specification has it true exactly for an identifier of the fixed
  length of 20 bytes.
\<close>

definition isValidInfohash :: "pyval \<Rightarrow> bool" where
  "isValidInfohash v = (case v of PStr h \<Rightarrow> length h = 20 | _ \<Rightarrow> False)"

text \<open>
  Modelled from the spec: the index store (\<^verbatim>\<open>SynTorrentDBHandler\<close>) is not in the source
  at hand. The specification gives its contract: \<^verbatim>\<open>get\<close> returns the record of an
  identifier or absent, \<^verbatim>\<open>put\<close> upserts, \<^verbatim>\<open>delete\<close> removes the index entry and the
  payload file, \<^verbatim>\<open>listLight\<close> returns the records, each carrying its identifier.
\<close>

definition getTorrent :: "(string \<times> torrent) list \<Rightarrow> pyval \<Rightarrow> torrent option" where
  "getTorrent db v = (case v of PStr h \<Rightarrow> map_of db h | _ \<Rightarrow> None)"

fun addTorrent :: "string \<Rightarrow> torrent \<Rightarrow> (string \<times> torrent) list \<Rightarrow> (string \<times> torrent) list" where
  "addTorrent h t [] = [(h, t)]"
| "addTorrent h t ((k, v) # db) = (if k = h then (h, t) # db else (k, v) # addTorrent h t db)"

definition getRecommendedTorrents :: "(string \<times> torrent) list \<Rightarrow> torrent list" where
  "getRecommendedTorrents db = map (\<lambda>(h, t). t\<lparr>infohash := Some h\<rparr>) db"

definition deleteTorrent :: "string \<Rightarrow> handler \<Rightarrow> handler" where
  "deleteTorrent h s =
     (case map_of (torrent_db s) h of
        None \<Rightarrow> s
      | Some t \<Rightarrow>
          s\<lparr>torrent_db := filter (\<lambda>(k, v). k \<noteq> h) (torrent_db s),
            files := (files s)(os_path_join (torrent_dir t) (torrent_name t) := None)\<rparr>)"

section \<open>Serving a request: \<^verbatim>\<open>send_metadata\<close>\<close>

definition find_torrent :: "handler \<Rightarrow> pyval \<Rightarrow> string option" where
  "find_torrent s torrent_hash =
     (case getTorrent (torrent_db s) torrent_hash of
        None \<Rightarrow> None
      | Some data \<Rightarrow>
          (let filepath = os_path_join (torrent_dir data) (torrent_name data)
           in if os_path_isfile s filepath then Some filepath else None))"

definition read_torrent :: "handler \<Rightarrow> string \<Rightarrow> string option" where
  "read_torrent s torrent_path =
     (case open_read s torrent_path of
        Inl e \<Rightarrow> None
      | Inr torrent_data \<Rightarrow>
          if length torrent_data > Max_Torrent_Size then None else Some torrent_data)"

definition addTask :: "string \<Rightarrow> string \<Rightarrow> handler \<Rightarrow> handler" where
  "addTask permid msg s = s\<lparr>overlay_tasks := overlay_tasks s @ [(permid, msg)]\<rparr>"

definition do_send_metadata :: "env \<Rightarrow> string \<Rightarrow> pyval \<Rightarrow> string \<Rightarrow> handler \<Rightarrow> handler" where
  "do_send_metadata E permid torrent_hash torrent_data s =
     (let torrent = PDict [(''torrent_hash'', torrent_hash), (''metadata'', PStr torrent_data)];
          metadata_request = bencode E torrent
      in addTask permid (METADATA E # metadata_request) s)"

definition send_metadata :: "env \<Rightarrow> string \<Rightarrow> string \<Rightarrow> handler \<Rightarrow> bool \<times> handler" where
  "send_metadata E conn message s =
     (case bdecode E (PStr (drop 1 message)) of
        Inl e \<Rightarrow> (False, s)
      | Inr torrent_hash \<Rightarrow>
          if \<not> isValidInfohash torrent_hash then (False, s)
          else (case find_torrent s torrent_hash of
                  None \<Rightarrow> (False, s)
                | Some torrent_path \<Rightarrow>
                    if torrent_path = [] then (False, s)
                    else (case read_torrent s torrent_path of
                            None \<Rightarrow> (True, s)
                          | Some torrent_data \<Rightarrow>
                              if torrent_data \<noteq> []
                              then (True, do_send_metadata E conn torrent_hash torrent_data s)
                              else (True, s))))"

section \<open>Validation: \<^verbatim>\<open>valid_metadata\<close>\<close>

text \<open>
  \<^verbatim>\<open>v[key]\<close> with a string key: \<^verbatim>\<open>KeyError\<close> on a dictionary without the key,
  \<^verbatim>\<open>TypeError\<close> on a string, an integer or a list. \<^verbatim>\<open>v.get(key, default)\<close> and
  \<^verbatim>\<open>v.has_key(key)\<close> exist on dictionaries only.
\<close>

definition py_getitem :: "pyval \<Rightarrow> string \<Rightarrow> error + pyval" where
  "py_getitem v k =
     (case v of
        PDict d \<Rightarrow> (case map_of d k of None \<Rightarrow> Inl KeyError | Some x \<Rightarrow> Inr x)
      | _ \<Rightarrow> Inl TypeError)"

definition py_get :: "pyval \<Rightarrow> string \<Rightarrow> pyval \<Rightarrow> error + pyval" where
  "py_get v k dflt =
     (case v of
        PDict d \<Rightarrow> (case map_of d k of None \<Rightarrow> Inr dflt | Some x \<Rightarrow> Inr x)
      | _ \<Rightarrow> Inl AttributeError)"

definition py_has_key :: "pyval \<Rightarrow> string \<Rightarrow> error + bool" where
  "py_has_key v k =
     (case v of
        PDict d \<Rightarrow> Inr (map_of d k \<noteq> None)
      | _ \<Rightarrow> Inl AttributeError)"

definition valid_metadata :: "env \<Rightarrow> pyval \<Rightarrow> pyval \<Rightarrow> error + bool" where
  "valid_metadata E torrent_hash metadata =
     (case bdecode E metadata of
        Inl e \<Rightarrow> Inl e
      | Inr metainfo \<Rightarrow>
          (case py_getitem metainfo ''info'' of
             Inl e \<Rightarrow> Inl e
           | Inr info_v \<Rightarrow>
               (let infohash_v = sha_digest E (bencode E info_v)
                in if PStr infohash_v \<noteq> torrent_hash then Inr False else Inr True)))"

section \<open>Capacity control: \<^verbatim>\<open>limit_space\<close> and \<^verbatim>\<open>check_overflow\<close>\<close>

definition status_value :: "(string \<times> int) list" where
  "status_value = [(''dead'', 2), (''unknown'', 1), (''good'', 0)]"

text \<open>
  The local function \<^verbatim>\<open>get_weight\<close>, with its variable \<^verbatim>\<open>rel_date\<close> as a function of
  the date. \<^verbatim>\<open>time() - date\<close> is a float when \<^verbatim>\<open>date\<close> is an integer and raises
  \<^verbatim>\<open>TypeError\<close> when it is a string, a list or a dictionary.
\<close>

definition rel_date :: "env \<Rightarrow> int \<Rightarrow> int" where
  "rel_date E d = min (py_int ((now E - real_of_int d) / (24 * 60 * 60))) 999"

definition get_weight :: "env \<Rightarrow> torrent \<Rightarrow> error + int" where
  "get_weight E t =
     (let status_key = (case status t of None \<Rightarrow> ''dead'' | Some k \<Rightarrow> k);
          st = (case map_of status_value status_key of None \<Rightarrow> 2 | Some v \<Rightarrow> v);
          retry = min (case retry_number t of None \<Rightarrow> 0 | Some r \<Rightarrow> r) 99;
          rel = min (case relevance t of None \<Rightarrow> 0 | Some r \<Rightarrow> r) 99;
          date = (case info t of
                    None \<Rightarrow> PInt 0
                  | Some i \<Rightarrow> (case ti_creation_date i of None \<Rightarrow> PInt 0 | Some d \<Rightarrow> d))
      in case date of
           PInt d \<Rightarrow> Inr (st * 10 ^ 7 + retry * 10 ^ 5 + (99 - rel) * 10 ^ 3 + rel_date E d)
         | _ \<Rightarrow> Inl TypeError)"

text \<open>
  The first loop of \<^verbatim>\<open>limit_space\<close> stores the weight in each dictionary of the list, in
  place; an exception leaves the weights stored so far.
\<close>

fun assign_weights :: "env \<Rightarrow> torrent list \<Rightarrow> error option \<times> torrent list" where
  "assign_weights E [] = (None, [])"
| "assign_weights E (t # ts) =
     (case get_weight E t of
        Inl e \<Rightarrow> (Some e, t # ts)
      | Inr w \<Rightarrow>
          (case assign_weights E ts of
             (r, ts') \<Rightarrow> (r, t\<lparr>weight := Some w\<rparr> # ts')))"

text \<open>
  Modelled from the spec: \<^verbatim>\<open>sort_dictlist\<close> of \<^verbatim>\<open>Tribler.utilities\<close> is not in the source
  at hand; the specification has the records sorted by descending weight. The key is
  read as \<^verbatim>\<open>d['weight']\<close>, a \<^verbatim>\<open>KeyError\<close> where it is missing. Records of equal weight
  come out in the reverse of their order in the list.
\<close>

definition weight_key :: "torrent \<Rightarrow> int" where
  "weight_key t = (case weight t of None \<Rightarrow> 0 | Some w \<Rightarrow> w)"

definition sort_dictlist :: "torrent list \<Rightarrow> error + torrent list" where
  "sort_dictlist xs =
     (if list_ex (\<lambda>t. weight t = None) xs then Inl KeyError
      else Inr (rev (sort_key weight_key xs)))"

text \<open>The second loop of \<^verbatim>\<open>limit_space\<close>: \<^verbatim>\<open>torrent['infohash']\<close>, then the deletion.\<close>

fun delete_torrents :: "torrent list \<Rightarrow> handler \<Rightarrow> error option \<times> handler" where
  "delete_torrents [] s = (None, s)"
| "delete_torrents (t # ts) s =
     (case infohash t of
        None \<Rightarrow> (Some KeyError, s)
      | Some h \<Rightarrow> delete_torrents ts (deleteTorrent h s))"

definition num_delete :: "env \<Rightarrow> handler \<Rightarrow> int" where
  "num_delete E s =
     (let n = num_torrents s - max_num_torrents E + max_num_torrents E div 10
      in if n \<le> 0 then 1 else n)"

definition limit_space :: "env \<Rightarrow> handler \<Rightarrow> error option \<times> handler" where
  "limit_space E s =
     (case assign_weights E (torrent_list s) of
        (Some e, ts) \<Rightarrow> (Some e, s\<lparr>torrent_list := ts\<rparr>)
      | (None, ts) \<Rightarrow>
          (case sort_dictlist ts of
             Inl e \<Rightarrow> (Some e, s\<lparr>torrent_list := ts\<rparr>)
           | Inr sorted_ts \<Rightarrow>
               (let s1 = s\<lparr>torrent_list := sorted_ts\<rparr>
                in delete_torrents (take (nat (num_delete E s1)) sorted_ts) s1)))"

definition refresh_torrent_list :: "handler \<Rightarrow> handler" where
  "refresh_torrent_list s =
     (let l = getRecommendedTorrents (torrent_db s)
      in s\<lparr>torrent_list := l, num_torrents := int (length l)\<rparr>)"

function check_overflow :: "env \<Rightarrow> bool \<Rightarrow> handler \<Rightarrow> error option \<times> handler" where
  "check_overflow E update s =
     (case (if num_torrents s < 0
            then check_overflow E False (refresh_torrent_list s)
            else (None, s)) of
        (Some e, s1) \<Rightarrow> (Some e, s1)
      | (None, s1) \<Rightarrow>
          (let s2 = s1\<lparr>num_torrents := num_torrents s1 + 1\<rparr>
           in if num_torrents s2 > max_num_torrents E
              then (let s3 = (if update then refresh_torrent_list s2 else s2)
                    in if num_torrents s3 > max_num_torrents E
                       then limit_space E s3
                       else (None, s3))
              else (None, s2)))"
  by pat_completeness auto
termination
  by (relation "measure (\<lambda>(E, update, s). if num_torrents s < 0 then 1 else 0)")
     (auto simp: refresh_torrent_list_def Let_def)

declare check_overflow.simps [simp del]

section \<open>Ingesting a response: \<^verbatim>\<open>save_torrent\<close> and \<^verbatim>\<open>got_metadata\<close>\<close>

text \<open>
  \<^verbatim>\<open>for li in info['files']\<close> iterates over the items of a list, the characters of a
  string or the keys of a dictionary, and raises \<^verbatim>\<open>TypeError\<close> on an integer.
\<close>

definition py_iter :: "pyval \<Rightarrow> error + pyval list" where
  "py_iter v =
     (case v of
        PList xs \<Rightarrow> Inr xs
      | PStr cs \<Rightarrow> Inr (map (\<lambda>c. PStr [c]) cs)
      | PDict d \<Rightarrow> Inr (map (\<lambda>(k, x). PStr k) d)
      | PInt n \<Rightarrow> Inl TypeError)"

text \<open>
  The loop over \<^verbatim>\<open>info['files']\<close> in \<^verbatim>\<open>addTorrentToDB\<close>, on the pair
  \<^verbatim>\<open>(nf, length)\<close>: \<^verbatim>\<open>li.has_key\<close> needs a dictionary, \<^verbatim>\<open>length += li['length']\<close> an integer.
\<close>

fun count_files :: "pyval list \<Rightarrow> int \<times> int \<Rightarrow> error + int \<times> int" where
  "count_files [] acc = Inr acc"
| "count_files (li # rest) (nf, len) =
     (case py_has_key li ''length'' of
        Inl e \<Rightarrow> Inl e
      | Inr False \<Rightarrow> count_files rest (nf + 1, len)
      | Inr True \<Rightarrow>
          (case py_getitem li ''length'' of
             Inr (PInt n) \<Rightarrow> count_files rest (nf + 1, len + n)
           | Inr _ \<Rightarrow> Inl TypeError
           | Inl e \<Rightarrow> Inl e))"

definition length_and_num_files :: "pyval \<Rightarrow> error + pyval \<times> int" where
  "length_and_num_files info_v =
     (case py_has_key info_v ''length'' of
        Inl e \<Rightarrow> Inl e
      | Inr True \<Rightarrow>
          (case py_get info_v ''length'' (PInt 0) of
             Inl e \<Rightarrow> Inl e
           | Inr len \<Rightarrow> Inr (len, 1))
      | Inr False \<Rightarrow>
          (case py_has_key info_v ''files'' of
             Inl e \<Rightarrow> Inl e
           | Inr False \<Rightarrow> Inr (PInt 0, 0)
           | Inr True \<Rightarrow>
               (case py_getitem info_v ''files'' of
                  Inl e \<Rightarrow> Inl e
                | Inr fs \<Rightarrow>
                    (case py_iter fs of
                       Inl e \<Rightarrow> Inl e
                     | Inr lis \<Rightarrow>
                         (case count_files lis (0, 0) of
                            Inl e \<Rightarrow> Inl e
                          | Inr (nf, len) \<Rightarrow> Inr (PInt len, nf))))))"

text \<open>
  The part of \<^verbatim>\<open>addTorrentToDB\<close> that builds the \<^verbatim>\<open>torrent\<close> dictionary. Every call that
  can raise is a branch; nothing is stored before the dictionary is complete.
\<close>

definition make_torrent :: "env \<Rightarrow> string \<Rightarrow> pyval \<Rightarrow> error + torrent" where
  "make_torrent E src metadata =
     (case bdecode E metadata of
        Inl e \<Rightarrow> Inl e
      | Inr metainfo0 \<Rightarrow>
     (case name2unicode E metainfo0 of
        Inl e \<Rightarrow> Inl e
      | Inr (namekey, metainfo) \<Rightarrow>
     (case py_getitem metainfo ''info'' of
        Inl e \<Rightarrow> Inl e
      | Inr info_v \<Rightarrow>
     (case py_get info_v namekey (PStr []) of
        Inl e \<Rightarrow> Inl e
      | Inr name_v \<Rightarrow>
     (case length_and_num_files info_v of
        Inl e \<Rightarrow> Inl e
      | Inr (len, nf) \<Rightarrow>
     (case py_get metainfo ''announce'' (PStr []) of
        Inl e \<Rightarrow> Inl e
      | Inr ann \<Rightarrow>
     (case py_get metainfo ''announce-list'' (PStr []) of
        Inl e \<Rightarrow> Inl e
      | Inr ann_list \<Rightarrow>
     (case py_get metainfo ''creation date'' (PInt 0) of
        Inl e \<Rightarrow> Inl e
      | Inr cdate \<Rightarrow>
     (case calculateCategory E info_v name_v of
        Inl e \<Rightarrow> Inl e
      | Inr cat \<Rightarrow>
          Inr \<lparr>infohash = None,
               torrent_dir = fst (os_path_split src),
               torrent_name = snd (os_path_split src),
               info = Some \<lparr>ti_name = name_v, ti_length = len, ti_num_files = nf,
                            ti_announce = ann, ti_announce_list = ann_list,
                            ti_creation_date = Some cdate\<rparr>,
               category = cat,
               ignore_number = 0,
               last_check_time = py_int (now E),
               retry_number = Some 0,
               seeder = 0,
               leecher = 0,
               status = Some ''unknown'',
               relevance = None,
               weight = None\<rparr>)))))))))"

text \<open>\<^verbatim>\<open>torrent_db.sync()\<close> flushes the database and changes nothing the handler reads.\<close>

definition addTorrentToDB :: "env \<Rightarrow> string \<Rightarrow> string \<Rightarrow> pyval \<Rightarrow> handler \<Rightarrow> error option \<times> handler" where
  "addTorrentToDB E src torrent_hash metadata s =
     (case make_torrent E src metadata of
        Inl e \<Rightarrow> (Some e, s)
      | Inr t \<Rightarrow>
          check_overflow E True (s\<lparr>torrent_db := addTorrent torrent_hash t (torrent_db s)\<rparr>))"

definition get_filename :: "env \<Rightarrow> handler \<Rightarrow> pyval \<Rightarrow> string \<Rightarrow> error + string" where
  "get_filename E s metadata torrent_hash =
     (case bdecode E metadata of
        Inl e \<Rightarrow> Inl e
      | Inr metainfo \<Rightarrow>
          (let file_name = sha_hexdigest E torrent_hash @ ''.torrent'';
               path = os_path_join (config_dir s) file_name
           in if os_path_exists s path
              then Inr (str_now E @ ''_'' @ file_name)
              else Inr file_name))"

text \<open>
  \<^verbatim>\<open>write_torrent\<close> catches every exception: a failing \<^verbatim>\<open>os.mkdir\<close> or \<^verbatim>\<open>open\<close> leaves
  the files as they are, and \<^verbatim>\<open>file.write\<close> of a value that is not a string fails after
  \<^verbatim>\<open>open\<close> has created the file empty.
\<close>

definition write_torrent :: "pyval \<Rightarrow> string \<Rightarrow> string \<Rightarrow> handler \<Rightarrow> handler" where
  "write_torrent metadata dir name s =
     (if \<not> os_path_exists s dir \<and> dir \<in> denied s then s
      else (let s1 = (if \<not> os_path_exists s dir then s\<lparr>dirs := insert dir (dirs s)\<rparr> else s);
                save_path = os_path_join dir name
            in if save_path \<in> denied s1 \<or> save_path \<in> dirs s1 \<or> dir \<notin> dirs s1 then s1
               else (case metadata of
                       PStr m \<Rightarrow> s1\<lparr>files := (files s1)(save_path \<mapsto> m)\<rparr>
                     | _ \<Rightarrow> s1\<lparr>files := (files s1)(save_path \<mapsto> [])\<rparr>)))"

definition save_torrent :: "env \<Rightarrow> string \<Rightarrow> pyval \<Rightarrow> handler \<Rightarrow> error option \<times> handler" where
  "save_torrent E torrent_hash metadata s =
     (case get_filename E s metadata torrent_hash of
        Inl e \<Rightarrow> (Some e, s)
      | Inr file_name \<Rightarrow>
          (let save_path = os_path_join (config_dir s) file_name
           in case addTorrentToDB E save_path torrent_hash metadata s of
                (Some e, s1) \<Rightarrow> (Some e, s1)
              | (None, s1) \<Rightarrow> (None, write_torrent metadata (config_dir s1) file_name s1)))"

text \<open>
  \<^verbatim>\<open>got_metadata\<close>. After \<^verbatim>\<open>isValidInfohash\<close> the identifier is a byte string, so the
  last branch of the case on \<open>torrent_hash\<close> is never taken.
\<close>

definition got_metadata :: "env \<Rightarrow> string \<Rightarrow> string \<Rightarrow> handler \<Rightarrow> bool \<times> handler" where
  "got_metadata E conn message s =
     (case bdecode E (PStr (drop 1 message)) of
        Inl e \<Rightarrow> (False, s)
      | Inr (PDict d) \<Rightarrow>
          (case py_getitem (PDict d) ''torrent_hash'' of
             Inl e \<Rightarrow> (False, s)
           | Inr torrent_hash \<Rightarrow>
               if \<not> isValidInfohash torrent_hash then (False, s)
               else (case py_getitem (PDict d) ''metadata'' of
                       Inl e \<Rightarrow> (False, s)
                     | Inr metadata \<Rightarrow>
                         (case valid_metadata E torrent_hash metadata of
                            Inl e \<Rightarrow> (False, s)
                          | Inr False \<Rightarrow> (False, s)
                          | Inr True \<Rightarrow>
                              (case torrent_hash of
                                 PStr h \<Rightarrow>
                                   (case save_torrent E h metadata s of
                                      (Some e, s1) \<Rightarrow> (False, s1)
                                    | (None, s1) \<Rightarrow>
                                        (case dlhelper E of
                                           None \<Rightarrow> (True, s1)
                                         | Some call_dlhelp_task \<Rightarrow>
                                             (case call_dlhelp_task torrent_hash metadata of
                                                Some e \<Rightarrow> (False, s1)
                                              | None \<Rightarrow> (True, s1))))
                               | _ \<Rightarrow> (False, s)))))
      | Inr _ \<Rightarrow> (False, s))"

text \<open>\<^verbatim>\<open>handleMessage\<close>: \<^verbatim>\<open>message[0]\<close> raises \<^verbatim>\<open>IndexError\<close> on the empty message.\<close>

definition handleMessage :: "env \<Rightarrow> string \<Rightarrow> string \<Rightarrow> handler \<Rightarrow> (error + bool) \<times> handler" where
  "handleMessage E permid message s =
     (case message of
        [] \<Rightarrow> (Inl IndexError, s)
      | t # rest \<Rightarrow>
          if t = GET_METADATA E then
            (case send_metadata E permid message s of (b, s') \<Rightarrow> (Inr b, s'))
          else if t = METADATA E then
            (case got_metadata E permid message s of (b, s') \<Rightarrow> (Inr b, s'))
          else (Inr False, s))"

section \<open>Notions of the specification\<close>












section \<open>An instance of the collaborators\<close>

text \<open>
  Modelled from the spec: the bencoding library, SHA-1, \<^verbatim>\<open>name2unicode\<close> and the category
  classifier are not in the source at hand. The theorems below hold for every choice of
  them; the concrete examples need one. The specification describes the encoding as
  length-prefixed, deterministic and self-describing over ordered maps, byte strings and
  integers, which is bencoding: \<^verbatim>\<open>i<decimal>e\<close>, \<^verbatim>\<open><length>:<bytes>\<close>, \<^verbatim>\<open>l...e\<close> and
  \<^verbatim>\<open>d...e\<close> with string keys in strictly increasing order.
\<close>

definition is_digit :: "char \<Rightarrow> bool" where
  "is_digit c = (48 \<le> (of_char c :: nat) \<and> (of_char c :: nat) \<le> 57)"

definition digits_value :: "string \<Rightarrow> nat" where
  "digits_value ds = foldl (\<lambda>acc c. acc * 10 + ((of_char c :: nat) - 48)) 0 ds"

text \<open>A decimal numeral without sign: not empty, digits only, no leading zero but \<^verbatim>\<open>0\<close> itself.\<close>

definition parse_decimal :: "string \<Rightarrow> nat option" where
  "parse_decimal ds =
     (if ds = [] \<or> \<not> list_all is_digit ds \<or> (hd ds = CHR ''0'' \<and> length ds \<noteq> 1) then None
      else Some (digits_value ds))"

definition parse_int :: "string \<Rightarrow> int option" where
  "parse_int ds =
     (case ds of
        [] \<Rightarrow> None
      | c # rest \<Rightarrow>
          if c = CHR ''-''
          then (case parse_decimal rest of
                  None \<Rightarrow> None
                | Some n \<Rightarrow> if n = 0 then None else Some (- int n))
          else map_option int (parse_decimal ds))"

definition str_less :: "string \<Rightarrow> string \<Rightarrow> bool" where
  "str_less a b = ((map of_char a :: nat list, map of_char b) \<in> lexord {(x, y). x < y})"

text \<open>
  The decoder reads one value from the front of the input and returns it with the rest.
  The first argument bounds the number of nested calls; \<open>bdecode_str\<close> starts it at
  one more than the length of the input and accepts a value that leaves no rest.
\<close>

fun decode_value :: "nat \<Rightarrow> string \<Rightarrow> (pyval \<times> string) option"
  and decode_list :: "nat \<Rightarrow> string \<Rightarrow> (pyval list \<times> string) option"
  and decode_dict :: "nat \<Rightarrow> string option \<Rightarrow> string \<Rightarrow> ((string \<times> pyval) list \<times> string) option"
where
  "decode_value 0 x = None"
| "decode_value (Suc n) [] = None"
| "decode_value (Suc n) (c # cs) =
     (if c = CHR ''i'' then
        (let ds = takeWhile (\<lambda>c. c \<noteq> CHR ''e'') cs; rest = dropWhile (\<lambda>c. c \<noteq> CHR ''e'') cs
         in if rest = [] then None
            else (case parse_int ds of None \<Rightarrow> None | Some k \<Rightarrow> Some (PInt k, tl rest)))
      else if c = CHR ''l'' then
        (case decode_list n cs of None \<Rightarrow> None | Some (xs, rest) \<Rightarrow> Some (PList xs, rest))
      else if c = CHR ''d'' then
        (case decode_dict n None cs of None \<Rightarrow> None | Some (d, rest) \<Rightarrow> Some (PDict d, rest))
      else
        (let ds = takeWhile (\<lambda>c. c \<noteq> CHR '':'') (c # cs);
             rest = dropWhile (\<lambda>c. c \<noteq> CHR '':'') (c # cs)
         in if rest = [] then None
            else (case parse_decimal ds of
                    None \<Rightarrow> None
                  | Some k \<Rightarrow>
                      if length (tl rest) < k then None
                      else Some (PStr (take k (tl rest)), drop k (tl rest)))))"
| "decode_list 0 x = None"
| "decode_list (Suc n) [] = None"
| "decode_list (Suc n) (c # cs) =
     (if c = CHR ''e'' then Some ([], cs)
      else (case decode_value n (c # cs) of
              None \<Rightarrow> None
            | Some (v, rest) \<Rightarrow>
                (case decode_list n rest of
                   None \<Rightarrow> None
                 | Some (vs, rest') \<Rightarrow> Some (v # vs, rest'))))"
| "decode_dict 0 lastkey x = None"
| "decode_dict (Suc n) lastkey [] = None"
| "decode_dict (Suc n) lastkey (c # cs) =
     (if c = CHR ''e'' then Some ([], cs)
      else if \<not> is_digit c then None
      else (case decode_value n (c # cs) of
              Some (PStr k, rest) \<Rightarrow>
                if (case lastkey of None \<Rightarrow> False | Some l \<Rightarrow> \<not> str_less l k) then None
                else (case decode_value n rest of
                        None \<Rightarrow> None
                      | Some (v, rest') \<Rightarrow>
                          (case decode_dict n (Some k) rest' of
                             None \<Rightarrow> None
                           | Some (kvs, rest'') \<Rightarrow> Some ((k, v) # kvs, rest'')))
            | _ \<Rightarrow> None))"

definition bdecode_str :: "string \<Rightarrow> error + pyval" where
  "bdecode_str x =
     (case decode_value (Suc (length x)) x of
        Some (v, []) \<Rightarrow> Inr v
      | _ \<Rightarrow> Inl ValueError)"

definition bdecode_inst :: "pyval \<Rightarrow> error + pyval" where
  "bdecode_inst v = (case v of PStr x \<Rightarrow> bdecode_str x | _ \<Rightarrow> Inl TypeError)"

function decimal :: "nat \<Rightarrow> string" where
  "decimal n =
     (if n < 10 then [char_of (48 + n)]
      else decimal (n div 10) @ [char_of (48 + n mod 10)])"
  by pat_completeness auto
termination
  by (relation "measure id") auto

declare decimal.simps [simp del]

fun insert_item :: "string \<times> 'a \<Rightarrow> (string \<times> 'a) list \<Rightarrow> (string \<times> 'a) list" where
  "insert_item kv [] = [kv]"
| "insert_item kv (x # xs) =
     (if str_less (fst kv) (fst x) then kv # x # xs else x # insert_item kv xs)"

fun bencode_inst :: "pyval \<Rightarrow> string" where
  "bencode_inst (PInt k) = ''i'' @ (if k < 0 then ''-'' @ decimal (nat (- k)) else decimal (nat k)) @ ''e''"
| "bencode_inst (PStr x) = decimal (length x) @ '':'' @ x"
| "bencode_inst (PList xs) = ''l'' @ concat (map bencode_inst xs) @ ''e''"
| "bencode_inst (PDict d) =
     ''d'' @ concat (map (\<lambda>(k, enc). decimal (length k) @ '':'' @ k @ enc)
                        (foldr insert_item (map (\<lambda>(k, v). (k, bencode_inst v)) d) [])) @ ''e''"

text \<open>
  Modelled from the spec: SHA-1 is not in the source at hand, and the specification asks
  only for a content hash of 20 bytes. This stand-in cuts or pads its argument to 20
  bytes and serves for the digest and for its hexadecimal form; no theorem depends on
  which function it is.
\<close>

definition sha_inst :: "string \<Rightarrow> string" where
  "sha_inst x = take 20 (x @ replicate 20 (CHR ''0''))"

text \<open>
  Modelled from the spec: \<^verbatim>\<open>name2unicode\<close> of \<^verbatim>\<open>Tribler.unicode\<close> is not in the source at
  hand; the comment at its call has it convert \<^verbatim>\<open>info['name']\<close> and return the key of
  the name. The instance picks the key, needs the name to be there, and leaves the
  metainfo as it is. The category of the instance is always the empty list, the two
  message tags are two different bytes, and there is no download helper.
\<close>

definition name2unicode_inst :: "pyval \<Rightarrow> error + string \<times> pyval" where
  "name2unicode_inst metainfo =
     (case py_getitem metainfo ''info'' of
        Inl e \<Rightarrow> Inl e
      | Inr i \<Rightarrow>
          (case py_has_key i ''name.utf-8'' of
             Inl e \<Rightarrow> Inl e
           | Inr b \<Rightarrow>
               (let namekey = (if b then ''name.utf-8'' else ''name'')
                in case py_getitem i namekey of
                     Inl e \<Rightarrow> Inl e
                   | Inr x \<Rightarrow> Inr (namekey, metainfo))))"

definition env_inst :: "int \<Rightarrow> real \<Rightarrow> env" where
  "env_inst maxn t =
     \<lparr>GET_METADATA = CHR 0xF7,
      METADATA = CHR 0xF8,
      bdecode = bdecode_inst,
      bencode = bencode_inst,
      sha_digest = sha_inst,
      sha_hexdigest = sha_inst,
      name2unicode = name2unicode_inst,
      calculateCategory = (\<lambda>i n. Inr (PList [])),
      max_num_torrents = maxn,
      now = t,
      str_now = ''1162641600.0'',
      dlhelper = None\<rparr>"

text \<open>The handler right after \<^verbatim>\<open>register\<close>, on an empty database and an empty disk.\<close>

definition handler_inst :: handler where
  "handler_inst =
     \<lparr>config_dir = ''cfg/torrent2'',
      num_torrents = - 1,
      torrent_list = [],
      torrent_db = [],
      files = Map.empty,
      dirs = {},
      denied = {},
      overlay_tasks = []\<rparr>"

text \<open>A record of the database with a given status, retry count and creation date.\<close>

definition torrent_inst :: "string \<Rightarrow> string \<Rightarrow> int \<Rightarrow> int \<Rightarrow> torrent" where
  "torrent_inst nm st retry d =
     \<lparr>infohash = None, torrent_dir = ''cfg/torrent2'', torrent_name = nm,
      info = Some \<lparr>ti_name = PStr ''x'', ti_length = PInt 5, ti_num_files = 1,
                   ti_announce = PStr [], ti_announce_list = PStr [],
                   ti_creation_date = Some (PInt d)\<rparr>,
      category = PList [], ignore_number = 0, last_check_time = 0,
      retry_number = Some retry, seeder = 0, leecher = 0, status = Some st,
      relevance = None, weight = None\<rparr>"

text \<open>
  A database of \<open>n\<close> records (up to 110) under identifiers of twenty bytes that
  differ in their last two bytes.
\<close>

definition key_inst :: "nat \<Rightarrow> string" where
  "key_inst i = replicate 18 (CHR ''0'') @ [char_of (48 + i div 10), char_of (48 + i mod 10)]"

definition db_inst :: "nat \<Rightarrow> (string \<times> torrent) list" where
  "db_inst n =
     map (\<lambda>i. (key_inst i,
               torrent_inst (key_inst i @ ''.torrent'')
                 (if i mod 3 = 0 then ''good'' else if i mod 3 = 1 then ''unknown'' else ''dead'')
                 (int (i mod 7)) (int i * 86400)))
         [0..<n]"

text \<open>A database with a record dated far in the future.\<close>

definition db_future :: "(string \<times> torrent) list" where
  "db_future =
     [(key_inst 0, torrent_inst ''a.torrent'' ''good'' 0 0),
      (key_inst 1, torrent_inst ''b.torrent'' ''dead'' 0 2000000000000)]"


section \<open>Evaluations shared by the examples\<close>

lemma bdecode_identifier_a:
  "bdecode_str ''20:aaaaaaaaaaaaaaaaaaaa'' = Inr (PStr ''aaaaaaaaaaaaaaaaaaaa'')"
  by code_simp

section \<open>Serving a request\<close>

text \<open>
  C1 (as amended). An inbound \<^verbatim>\<open>GET_METADATA\<close> message whose payload decodes to a valid
  identifier for which \<^verbatim>\<open>find_torrent\<close> returns nothing is dropped: no task is handed to
  the overlay, the handler is unchanged, and the result is \<^verbatim>\<open>False\<close>, the same signal as
  for a malformed request.
\<close>

theorem get_metadata_unknown_dropped:
  assumes "bdecode E (PStr payload) = Inr torrent_hash"
    and "isValidInfohash torrent_hash"
    and "find_torrent s torrent_hash = None"
  shows "handleMessage E permid (GET_METADATA E # payload) s = (Inr False, s)"
  using assms by (simp add: handleMessage_def send_metadata_def)

theorem get_metadata_unknown_dropped_witness:
  "handleMessage (env_inst 100 1000) ''peer'' (CHR 0xF7 # ''20:aaaaaaaaaaaaaaaaaaaa'') handler_inst
     = (Inr False, handler_inst)"
  using get_metadata_unknown_dropped [of "env_inst 100 1000" "''20:aaaaaaaaaaaaaaaaaaaa''"
          "PStr ''aaaaaaaaaaaaaaaaaaaa''" handler_inst "''peer''"]
  by (simp add: env_inst_def bdecode_inst_def bdecode_identifier_a isValidInfohash_def
        find_torrent_def getTorrent_def handler_inst_def)

text \<open>
  C1 as stated fails: on the empty database the request for the identifier of twenty
  \<^verbatim>\<open>a\<close> bytes is well formed and unknown, and the handler does not return \<^verbatim>\<open>True\<close>.
\<close>

theorem get_metadata_unknown_counterexample:
  "bdecode (env_inst 100 1000) (PStr ''20:aaaaaaaaaaaaaaaaaaaa'') = Inr (PStr ''aaaaaaaaaaaaaaaaaaaa'') \<and>
   isValidInfohash (PStr ''aaaaaaaaaaaaaaaaaaaa'') \<and>
   find_torrent handler_inst (PStr ''aaaaaaaaaaaaaaaaaaaa'') = None \<and>
   fst (handleMessage (env_inst 100 1000) ''peer'' (CHR 0xF7 # ''20:aaaaaaaaaaaaaaaaaaaa'') handler_inst)
     \<noteq> Inr True"
  by (simp add: env_inst_def bdecode_inst_def bdecode_identifier_a isValidInfohash_def
        find_torrent_def getTorrent_def handler_inst_def handleMessage_def send_metadata_def)

text \<open>
  C7. \<^verbatim>\<open>read_torrent\<close> returns the content of a file that can be opened and has at most
  \<open>8 * 1024 * 1024\<close> bytes, and nothing for a longer file, a missing file or a file
  that cannot be opened.
\<close>

theorem read_torrent_size_bound:
  "(files s p = Some d \<and> p \<notin> denied s \<and> length d \<le> 8 * 1024 * 1024 \<longrightarrow> read_torrent s p = Some d) \<and>
   (files s p = Some d \<and> length d > 8 * 1024 * 1024 \<longrightarrow> read_torrent s p = None) \<and>
   (files s p = None \<or> p \<in> denied s \<longrightarrow> read_torrent s p = None)"
  by (auto simp: read_torrent_def open_read_def Max_Torrent_Size_def split: option.splits)

theorem read_torrent_size_bound_witness:
  "read_torrent (handler_inst\<lparr>files := [''t'' \<mapsto> replicate (8 * 1024 * 1024) (CHR ''x'')]\<rparr>) ''t''
     = Some (replicate (8 * 1024 * 1024) (CHR ''x'')) \<and>
   read_torrent (handler_inst\<lparr>files := [''t'' \<mapsto> replicate (8 * 1024 * 1024 + 1) (CHR ''x'')]\<rparr>) ''t''
     = None \<and>
   read_torrent handler_inst ''t'' = None"
  using read_torrent_size_bound [of "handler_inst\<lparr>files := [''t'' \<mapsto> replicate (8 * 1024 * 1024) (CHR ''x'')]\<rparr>"
          "''t''" "replicate (8 * 1024 * 1024) (CHR ''x'')"]
        read_torrent_size_bound [of "handler_inst\<lparr>files := [''t'' \<mapsto> replicate (8 * 1024 * 1024 + 1) (CHR ''x'')]\<rparr>"
          "''t''" "replicate (8 * 1024 * 1024 + 1) (CHR ''x'')"]
        read_torrent_size_bound [of handler_inst "''t''" "[]"]
  by (simp add: handler_inst_def)

section \<open>Ingesting a response\<close>

lemma bdecode_garbage: "bdecode_str ''garbage'' = Inl ValueError"
  by code_simp

lemma bdecode_empty_dict: "bdecode_str ''de'' = Inr (PDict [])"
  by code_simp

lemma bdecode_metainfo_x:
  "bdecode_str ''d4:infod4:name1:xee'' = Inr (PDict [(''info'', PDict [(''name'', PStr ''x'')])])"
  by code_simp

lemma bdecode_message_x:
  "bdecode_str ''d8:metadata19:d4:infod4:name1:xee12:torrent_hash20:aaaaaaaaaaaaaaaaaaaae''
     = Inr (PDict [(''metadata'', PStr ''d4:infod4:name1:xee''),
                   (''torrent_hash'', PStr ''aaaaaaaaaaaaaaaaaaaa'')])"
  by code_simp

lemma bdecode_message_garbage:
  "bdecode_str ''d8:metadata7:garbage12:torrent_hash20:aaaaaaaaaaaaaaaaaaaae''
     = Inr (PDict [(''metadata'', PStr ''garbage''),
                   (''torrent_hash'', PStr ''aaaaaaaaaaaaaaaaaaaa'')])"
  by code_simp

lemma sha_info_x: "sha_inst (bencode_inst (PDict [(''name'', PStr ''x'')])) = ''d4:name1:xe000000000''"
  by code_simp

text \<open>
  C3 (as amended). \<^verbatim>\<open>valid_metadata\<close> answers \<^verbatim>\<open>False\<close> only for a payload that decodes and
  has an \<^verbatim>\<open>info\<close> entry whose hash differs from the identifier. On a payload that does
  not decode, or that decodes to something without an \<^verbatim>\<open>info\<close> entry, it raises the
  exception of the failing step to its caller. The caller \<^verbatim>\<open>got_metadata\<close> catches it,
  returns \<^verbatim>\<open>False\<close> and leaves the handler unchanged.
\<close>

theorem valid_metadata_raises:
  "(bdecode E metadata = Inl e \<longrightarrow> valid_metadata E torrent_hash metadata = Inl e) \<and>
   (bdecode E metadata = Inr metainfo \<and> py_getitem metainfo ''info'' = Inl e
      \<longrightarrow> valid_metadata E torrent_hash metadata = Inl e) \<and>
   (bdecode E metadata = Inr metainfo \<and> py_getitem metainfo ''info'' = Inr info_v
      \<longrightarrow> valid_metadata E torrent_hash metadata
            = Inr (PStr (sha_digest E (bencode E info_v)) = torrent_hash)) \<and>
   (valid_metadata E torrent_hash metadata = Inl e \<and>
    bdecode E (PStr (drop 1 message)) = Inr (PDict d) \<and>
    map_of d ''torrent_hash'' = Some torrent_hash \<and> map_of d ''metadata'' = Some metadata
      \<longrightarrow> got_metadata E conn message s = (False, s))"
  by (auto simp: valid_metadata_def got_metadata_def py_getitem_def Let_def)

theorem valid_metadata_raises_witness:
  "valid_metadata (env_inst 100 1000) (PStr ''aaaaaaaaaaaaaaaaaaaa'') (PStr ''garbage'') = Inl ValueError \<and>
   valid_metadata (env_inst 100 1000) (PStr ''aaaaaaaaaaaaaaaaaaaa'') (PStr ''de'') = Inl KeyError \<and>
   valid_metadata (env_inst 100 1000) (PStr ''aaaaaaaaaaaaaaaaaaaa'') (PStr ''d4:infod4:name1:xee'') = Inr False \<and>
   valid_metadata (env_inst 100 1000) (PStr ''d4:name1:xe000000000'') (PStr ''d4:infod4:name1:xee'') = Inr True \<and>
   got_metadata (env_inst 100 1000) ''peer''
     (CHR 0xF8 # ''d8:metadata7:garbage12:torrent_hash20:aaaaaaaaaaaaaaaaaaaae'') handler_inst
     = (False, handler_inst)"
  using valid_metadata_raises [of "env_inst 100 1000" "PStr ''garbage''" ValueError
          "PStr ''aaaaaaaaaaaaaaaaaaaa''" "PDict []" "PDict []"
          "CHR 0xF8 # ''d8:metadata7:garbage12:torrent_hash20:aaaaaaaaaaaaaaaaaaaae''"
          "[(''metadata'', PStr ''garbage''), (''torrent_hash'', PStr ''aaaaaaaaaaaaaaaaaaaa'')]"
          "''peer''" handler_inst]
        valid_metadata_raises [of "env_inst 100 1000" "PStr ''de''" KeyError
          "PStr ''aaaaaaaaaaaaaaaaaaaa''" "PDict []" "PDict []" "[]" "[]" "''peer''" handler_inst]
        valid_metadata_raises [of "env_inst 100 1000" "PStr ''d4:infod4:name1:xee''" KeyError
          "PStr ''aaaaaaaaaaaaaaaaaaaa''" "PDict [(''info'', PDict [(''name'', PStr ''x'')])]"
          "PDict [(''name'', PStr ''x'')]" "[]" "[]" "''peer''" handler_inst]
        valid_metadata_raises [of "env_inst 100 1000" "PStr ''d4:infod4:name1:xee''" KeyError
          "PStr ''d4:name1:xe000000000''" "PDict [(''info'', PDict [(''name'', PStr ''x'')])]"
          "PDict [(''name'', PStr ''x'')]" "[]" "[]" "''peer''" handler_inst]
  by (simp add: env_inst_def bdecode_inst_def bdecode_garbage bdecode_empty_dict bdecode_metainfo_x
        bdecode_message_garbage sha_info_x py_getitem_def del: bencode_inst.simps)

text \<open>
  C3 as stated fails: for a payload that is not bencoded, and for the empty dictionary,
  the result of \<^verbatim>\<open>valid_metadata\<close> is an exception and not \<^verbatim>\<open>False\<close>.
\<close>

theorem valid_metadata_raises_counterexample:
  "valid_metadata (env_inst 100 1000) (PStr ''aaaaaaaaaaaaaaaaaaaa'') (PStr ''garbage'') = Inl ValueError \<and>
   valid_metadata (env_inst 100 1000) (PStr ''aaaaaaaaaaaaaaaaaaaa'') (PStr ''de'') = Inl KeyError"
  by (simp add: valid_metadata_def env_inst_def bdecode_inst_def bdecode_garbage bdecode_empty_dict
        py_getitem_def)

text \<open>
  C8. A \<^verbatim>\<open>METADATA\<close> message whose \<^verbatim>\<open>torrent_hash\<close> differs from the hash of the encoded
  \<^verbatim>\<open>info\<close> entry of its metadata is dropped: \<^verbatim>\<open>got_metadata\<close> returns \<^verbatim>\<open>False\<close> and the
  handler, with its database and its files, is as before.
\<close>

theorem metadata_hash_mismatch_dropped:
  assumes "bdecode E (PStr (drop 1 message)) = Inr (PDict d)"
    and "map_of d ''torrent_hash'' = Some torrent_hash"
    and "map_of d ''metadata'' = Some metadata"
    and "bdecode E metadata = Inr metainfo"
    and "py_getitem metainfo ''info'' = Inr info_v"
    and "PStr (sha_digest E (bencode E info_v)) \<noteq> torrent_hash"
  shows "got_metadata E conn message s = (False, s) \<and>
         length (torrent_db (snd (got_metadata E conn message s))) = length (torrent_db s)"
  using assms by (simp add: got_metadata_def valid_metadata_def py_getitem_def)

theorem metadata_hash_mismatch_dropped_witness:
  "got_metadata (env_inst 100 1000) ''peer''
     (CHR 0xF8 # ''d8:metadata19:d4:infod4:name1:xee12:torrent_hash20:aaaaaaaaaaaaaaaaaaaae'') handler_inst
     = (False, handler_inst)"
  using metadata_hash_mismatch_dropped [of "env_inst 100 1000"
          "CHR 0xF8 # ''d8:metadata19:d4:infod4:name1:xee12:torrent_hash20:aaaaaaaaaaaaaaaaaaaae''"
          "[(''metadata'', PStr ''d4:infod4:name1:xee''), (''torrent_hash'', PStr ''aaaaaaaaaaaaaaaaaaaa'')]"
          "PStr ''aaaaaaaaaaaaaaaaaaaa''" "PStr ''d4:infod4:name1:xee''"
          "PDict [(''info'', PDict [(''name'', PStr ''x'')])]" "PDict [(''name'', PStr ''x'')]"
          "''peer''" handler_inst]
  by (simp add: env_inst_def bdecode_inst_def bdecode_message_x bdecode_metainfo_x sha_info_x
        py_getitem_def del: bencode_inst.simps)

section \<open>The eviction weight\<close>




section \<open>The eviction pass\<close>



















section \<open>The capacity check\<close>

lemma check_overflow_initialised:
  "0 \<le> num_torrents s \<Longrightarrow>
   check_overflow E update s =
     (let s2 = s\<lparr>num_torrents := num_torrents s + 1\<rparr>
      in if num_torrents s2 > max_num_torrents E
         then (let s3 = (if update then refresh_torrent_list s2 else s2)
               in if num_torrents s3 > max_num_torrents E then limit_space E s3 else (None, s3))
         else (None, s2))"
  by (subst check_overflow.simps) simp

lemma check_overflow_first:
  "num_torrents s < 0 \<Longrightarrow>
   check_overflow E update s =
     (case check_overflow E False (refresh_torrent_list s) of
        (Some e, s1) \<Rightarrow> (Some e, s1)
      | (None, s1) \<Rightarrow>
          (let s2 = s1\<lparr>num_torrents := num_torrents s1 + 1\<rparr>
           in if num_torrents s2 > max_num_torrents E
              then (let s3 = (if update then refresh_torrent_list s2 else s2)
                    in if num_torrents s3 > max_num_torrents E then limit_space E s3 else (None, s3))
              else (None, s2)))"
  by (subst check_overflow.simps) simp







lemma db_inst_length: "length (db_inst n) = n"
  by (simp add: db_inst_def)










text \<open>
  C9 (as amended). On the first capacity check after \<^verbatim>\<open>register\<close> the counter is taken
  from the index and incremented twice, in the recursive call and in the original one;
  when the index holds at least two records fewer than the budget, the check ends with
  the counter two above the number of records in the index, and nothing else changes.
\<close>

theorem first_check_counts_twice:
  assumes "num_torrents s < 0"
    and "int (length (torrent_db s)) + 2 \<le> max_num_torrents E"
  shows "check_overflow E True s
           = (None, s\<lparr>torrent_list := getRecommendedTorrents (torrent_db s),
                       num_torrents := int (length (torrent_db s)) + 2\<rparr>)"
proof -
  let ?n = "int (length (torrent_db s))"
  let ?r = "refresh_torrent_list s"
  have r: "?r = s\<lparr>torrent_list := getRecommendedTorrents (torrent_db s), num_torrents := ?n\<rparr>"
    by (simp add: refresh_torrent_list_def Let_def getRecommendedTorrents_def)
  have inner: "check_overflow E False ?r = (None, ?r\<lparr>num_torrents := ?n + 1\<rparr>)"
    using assms(2) by (simp add: check_overflow_initialised r Let_def)
  show ?thesis
    using assms by (simp add: check_overflow_first inner Let_def) (simp add: r)
qed

theorem first_check_counts_twice_witness:
  "num_torrents (snd (check_overflow (env_inst 100 10000000) True
      (handler_inst\<lparr>torrent_db := db_inst 1\<rparr>))) = 3"
  using first_check_counts_twice [of "handler_inst\<lparr>torrent_db := db_inst 1\<rparr>" "env_inst 100 10000000"]
  by (simp add: handler_inst_def env_inst_def db_inst_length)

text \<open>
  C9 as stated fails: with one record and a budget of two, the second increment exceeds
  the budget, the counter is taken from the index again, and the first check ends with
  the counter at one.
\<close>

theorem first_check_counts_twice_counterexample:
  "num_torrents (handler_inst\<lparr>torrent_db := db_inst 1\<rparr>) = - 1 \<and>
   length (getRecommendedTorrents (torrent_db (handler_inst\<lparr>torrent_db := db_inst 1\<rparr>))) = 1 \<and>
   check_overflow (env_inst 2 10000000) True (handler_inst\<lparr>torrent_db := db_inst 1\<rparr>)
     = (None, handler_inst\<lparr>torrent_db := db_inst 1,
                            torrent_list := getRecommendedTorrents (db_inst 1),
                            num_torrents := 1\<rparr>)"
  by (simp add: check_overflow_first check_overflow_initialised refresh_torrent_list_def Let_def
        handler_inst_def env_inst_def db_inst_length getRecommendedTorrents_def)

section \<open>Creation dates in the future\<close>
















text \<open>With a budget of one, the pass evicts the record dated in the past.\<close>

lemma future_dated_record_survives:
  "map fst (torrent_db (snd (limit_space (env_inst 1 10000000)
                 (refresh_torrent_list (handler_inst\<lparr>torrent_db := db_future\<rparr>))))) = [key_inst 1]"
  by (simp add: db_future_def handler_inst_def env_inst_def key_inst_def
        refresh_torrent_list_def getRecommendedTorrents_def limit_space_def torrent_inst_def
        get_weight_def rel_date_def py_int_def status_value_def sort_dictlist_def weight_key_def
        num_delete_def deleteTorrent_def os_path_join_def Let_def)

section \<open>Saving: the index and the file\<close>













end
